theory Spec2Isabelle
  imports Complex_Main
begin

section \<open>Python strings\<close>

text \<open>
  A Python \<open>str\<close> is modelled as a \<open>string\<close>: the list of its code points, for texts
  whose code points are below 256. The functions below are the \<open>str\<close> methods the
  repository calls: \<open>strip()\<close>, \<open>startswith(p)\<close>, \<open>split("\n")\<close> and
  \<open>"\n".join(lines)\<close>.
\<close>

definition py_isspace :: "char \<Rightarrow> bool" where
  \<comment> \<open>\<open>str.isspace\<close> on one character: TAB..CR, FS..US, space, NEL and NBSP.\<close>
  "py_isspace c =
     (let n = (of_char c :: nat)
      in (9 \<le> n \<and> n \<le> 13) \<or> (28 \<le> n \<and> n \<le> 32) \<or> n = 133 \<or> n = 160)"

definition py_lstrip :: "string \<Rightarrow> string" where
  "py_lstrip s = dropWhile py_isspace s"

definition py_rstrip :: "string \<Rightarrow> string" where
  "py_rstrip s = rev (dropWhile py_isspace (rev s))"

definition py_strip :: "string \<Rightarrow> string" where
  "py_strip s = py_rstrip (py_lstrip s)"

definition startswith :: "string \<Rightarrow> string \<Rightarrow> bool" where
  "startswith s p = (take (length p) s = p)"

fun split_nl :: "string \<Rightarrow> string list" where
  \<comment> \<open>\<open>s.split("\n")\<close>: never empty, \<open>"".split("\n") == [""]\<close>.\<close>
  "split_nl [] = [[]]"
| "split_nl (c # cs) =
     (if c = CHR 0x0A then [] # split_nl cs
      else (case split_nl cs of l # ls \<Rightarrow> (c # l) # ls | [] \<Rightarrow> [[c]]))"

fun join_nl :: "string list \<Rightarrow> string" where
  \<comment> \<open>\<open>"\n".join(lines)\<close>\<close>
  "join_nl [] = []"
| "join_nl [l] = l"
| "join_nl (l # ls) = l @ [CHR 0x0A] @ join_nl ls"

section \<open>Output module (src/output.py)\<close>

text \<open>
  A file is named by the Silver Bullet space path and the file name below it; the file
  system maps a name to the text of the file, \<open>None\<close> for a file that does not exist.
  \<open>read_text\<close> returns the text \<open>write_text\<close> stored: the encoding and the
  translation of carriage returns that text mode applies are not modelled, nor are
  directories and failing writes.
\<close>

type_synonym path = "string \<times> string"
type_synonym filesystem = "path \<Rightarrow> string option"

definition read_existing :: "filesystem \<Rightarrow> path \<Rightarrow> string" where
  \<comment> \<open>\<open>_read_existing\<close>\<close>
  "read_existing fs filepath = (case fs filepath of Some text \<Rightarrow> text | None \<Rightarrow> [])"

definition filename_map :: "string \<Rightarrow> string" where
  \<comment> \<open>\<open>filename_map.get(category, "Content/Other.md")\<close>\<close>
  "filename_map category =
     (if category = ''ready'' then ''Content/ReadyToPost.md''
      else if category = ''review'' then ''Content/NeedsReview.md''
      else if category = ''archive'' then ''Content/Archive.md''
      else ''Content/Other.md'')"

definition titles :: "string \<Rightarrow> string" where
  \<comment> \<open>\<open>titles.get(category, 'Content')\<close>\<close>
  "titles category =
     (if category = ''ready'' then ''Ready to Post''
      else if category = ''review'' then ''Needs Review''
      else if category = ''archive'' then ''Archive''
      else ''Content'')"

definition get_header :: "string \<Rightarrow> string" where
  \<comment> \<open>\<open>_get_header\<close>\<close>
  "get_header category =
     ''---\<newline>title: '' @ titles category @ ''\<newline>tags: #content #bitcoin\<newline>---\<newline>\<newline>''"

definition truthy_text :: "string option \<Rightarrow> bool" where
  \<comment> \<open>truth value of an \<open>Optional[str]\<close>: neither \<open>None\<close> nor empty\<close>
  "truthy_text t = (case t of None \<Rightarrow> False | Some s \<Rightarrow> s \<noteq> [])"

definition format_entry ::
  "string \<Rightarrow> string \<Rightarrow> string \<Rightarrow> string \<Rightarrow> string \<Rightarrow> string \<Rightarrow>
   string option \<Rightarrow> string option \<Rightarrow> string option \<Rightarrow> string" where
  \<comment> \<open>\<open>_format_entry\<close>; \<open>score\<close> is the text Python's formatting gives the score\<close>
  "format_entry title url source score score_reason timestamp tweet thread linkedin =
     (let entry = ''\<newline>## '' @ title @ ''\<newline>\<newline>**Source:** '' @ source
                    @ '' | **Score:** '' @ score @ ''/10 | **Added:** '' @ timestamp
                    @ ''\<newline>**Link:** '' @ url @ ''\<newline>**Why:** '' @ score_reason @ ''\<newline>'';
          entry = (if truthy_text tweet
                   then entry @ ''\<newline>### Tweet\<newline>```\<newline>'' @ the tweet @ ''\<newline>```\<newline>''
                   else entry);
          entry = (if truthy_text thread
                   then entry @ ''\<newline>### Thread\<newline>```\<newline>'' @ the thread @ ''\<newline>```\<newline>''
                   else entry);
          entry = (if truthy_text linkedin
                   then entry @ ''\<newline>### LinkedIn\<newline>'' @ the linkedin @ ''\<newline>''
                   else entry)
      in entry @ ''\<newline>---\<newline>'')"

fun find_header_end :: "nat \<Rightarrow> string list \<Rightarrow> nat" where
  \<comment> \<open>the \<open>for i, line in enumerate(lines)\<close> loop, started with \<open>header_end = 0\<close>\<close>
  "find_header_end i [] = 0"
| "find_header_end i (line # lines) =
     (if startswith line ''---'' \<and> i > 0 then i + 1
      else find_header_end (i + 1) lines)"

definition append_content ::
  "string \<Rightarrow> string \<Rightarrow> string \<Rightarrow> string \<Rightarrow> string \<Rightarrow> string \<Rightarrow> string \<Rightarrow> string \<Rightarrow>
   string option \<Rightarrow> string option \<Rightarrow> string option \<Rightarrow> bool \<Rightarrow> filesystem \<Rightarrow> filesystem" where
  \<comment> \<open>\<open>SilverBulletOutput.append_content\<close>; \<open>now\<close> is the text of
      \<open>datetime.now().strftime("%Y-%m-%d %H:%M")\<close>\<close>
  "append_content space_path category title url source score score_reason now
                  tweet thread linkedin prepend fs =
     (let filepath = (space_path, filename_map category);
          entry = format_entry title url source score score_reason now tweet thread linkedin;
          existing = read_existing fs filepath;
          existing = (if existing = [] then get_header category else existing);
          new_content =
            (if prepend then
               (let lines = split_nl existing;
                    header_end = find_header_end 0 lines;
                    header_part = join_nl (take header_end lines);
                    content_part = join_nl (drop header_end lines)
                in header_part @ ''\<newline>'' @ entry @ ''\<newline>'' @ content_part)
             else existing @ ''\<newline>'' @ entry)
      in fs(filepath \<mapsto> py_strip new_content @ ''\<newline>''))"

definition write_to_silverbullet ::
  "string \<Rightarrow> string \<Rightarrow> string \<Rightarrow> string \<Rightarrow> string \<Rightarrow> string \<Rightarrow> string \<Rightarrow> string \<Rightarrow>
   string option \<Rightarrow> string option \<Rightarrow> string option \<Rightarrow> filesystem \<Rightarrow> filesystem" where
  "write_to_silverbullet space_path category title url source score score_reason now
                         tweet thread linkedin fs =
     append_content space_path category title url source score score_reason now
                    tweet thread linkedin True fs"


section \<open>What the code takes from Python\<close>

text \<open>
  \<open>json.loads\<close>, \<open>float\<close> on a string or an int, the formatting of a float and
  SHA-256 are Python's own; they are parameters of the embedding. A parsed JSON document
  is a \<open>json\<close> value, with \<open>JInt\<close> for a Python int and \<open>JNum\<close> for a Python
  float. \<open>json_loads\<close> returns \<open>None\<close> where Python raises \<open>JSONDecodeError\<close>,
  \<open>float_of_str\<close> returns \<open>None\<close> where Python raises \<open>ValueError\<close>, and
  \<open>float_of_int\<close> returns \<open>None\<close> where Python raises \<open>OverflowError\<close>. Scores
  and thresholds are the reals that Python's floats denote; NaN and the infinities are
  not modelled.
\<close>

datatype json =
    JNull
  | JBool bool
  | JInt int
  | JNum real
  | JStr string
  | JArr "json list"
  | JObj "(string \<times> json) list"

record python =
  json_loads :: "string \<Rightarrow> json option"
  float_of_str :: "string \<Rightarrow> real option"
  float_of_int :: "int \<Rightarrow> real option"
  str_of_float :: "real \<Rightarrow> string"
  sha256_hexdigest :: "string \<Rightarrow> string"

text \<open>
  The exceptions that the modelled code can meet. \<open>FieldNotStr\<close> is not a Python
  exception: it marks a reply whose JSON puts a value that is not a string into a field
  the dataclass declares as \<open>str\<close>. The code keeps such a value in the dataclass and
  meets it later: a \<open>reason\<close> that is not a string makes the pipeline raise before
  \<open>update_score\<close>; a tweet, thread or linkedin that is \<open>null\<close> is skipped like an
  empty text, and another value is stored and rendered as SQLite and Python convert it.
  The embedding is typed after the dataclasses and ends the run with the marker at the
  point where the value appears.
\<close>

datatype exn =
    JSONDecodeError
  | KeyError
  | TypeError
  | AttributeError
  | ValueError
  | OverflowError
  | IntegrityError
  | FieldNotStr

definition dict_get :: "(string \<times> json) list \<Rightarrow> string \<Rightarrow> json \<Rightarrow> json" where
  \<comment> \<open>\<open>data.get(key, default)\<close> on a dict\<close>
  "dict_get d key dflt = (case map_of d key of Some v \<Rightarrow> v | None \<Rightarrow> dflt)"

fun py_float :: "python \<Rightarrow> json \<Rightarrow> exn + real" where
  \<comment> \<open>\<open>float(v)\<close>\<close>
  "py_float py (JNum x) = Inr x"
| "py_float py (JInt n) = (case float_of_int py n of Some x \<Rightarrow> Inr x | None \<Rightarrow> Inl OverflowError)"
| "py_float py (JBool b) = Inr (if b then 1 else 0)"
| "py_float py (JStr s) = (case float_of_str py s of Some x \<Rightarrow> Inr x | None \<Rightarrow> Inl ValueError)"
| "py_float py JNull = Inl TypeError"
| "py_float py (JArr xs) = Inl TypeError"
| "py_float py (JObj d) = Inl TypeError"

fun py_truthy :: "json \<Rightarrow> bool" where
  \<comment> \<open>the truth value Python gives a parsed JSON value\<close>
  "py_truthy JNull = False"
| "py_truthy (JBool b) = b"
| "py_truthy (JInt n) = (n \<noteq> 0)"
| "py_truthy (JNum x) = (x \<noteq> 0)"
| "py_truthy (JStr s) = (s \<noteq> [])"
| "py_truthy (JArr xs) = (xs \<noteq> [])"
| "py_truthy (JObj d) = (d \<noteq> [])"

fun py_text :: "json \<Rightarrow> exn + string" where
  \<comment> \<open>a JSON value stored in a \<open>str\<close> field\<close>
  "py_text (JStr s) = Inr s"
| "py_text v = Inl FieldNotStr"

fun is_dict :: "json \<Rightarrow> bool" where
  \<comment> \<open>whether the parsed value is a dict, the only one with a \<open>get\<close> method\<close>
  "is_dict (JObj d) = True"
| "is_dict v = False"

definition caught :: "exn \<Rightarrow> bool" where
  \<comment> \<open>\<open>except (json.JSONDecodeError, KeyError, TypeError)\<close>\<close>
  "caught e = (e = JSONDecodeError \<or> e = KeyError \<or> e = TypeError)"

section \<open>The inference provider\<close>

text \<open>
  A request carries the model name, \<open>max_tokens\<close> and the prompt; a prompt is one of
  the two templates together with the values formatted into it. The client answers a
  request with the text of the first content block of the response, and every request
  made is appended to a log (\<open>sent\<close>).
\<close>

datatype prompt =
    SCORING_PROMPT string string string
  | GENERATION_PROMPT string string string string string

datatype request = Request string nat prompt

definition messages_create ::
  "(request \<Rightarrow> string) \<Rightarrow> request \<Rightarrow> request list \<Rightarrow> string \<times> request list" where
  "messages_create client req sent = (client req, sent @ [req])"

definition payload_text :: "string \<Rightarrow> string" where
  \<comment> \<open>\<open>response.content[0].text.strip()\<close> followed by "Handle markdown code blocks",
      the same lines in \<open>score_article\<close> and \<open>generate_content\<close>\<close>
  "payload_text response =
     (let text = py_strip response
      in if startswith text ''```'' then join_nl (butlast (tl (split_nl text))) else text)"

section \<open>Database module (src/database.py)\<close>

text \<open>
  The two tables, each with the counter that \<open>AUTOINCREMENT\<close> keeps. The column
  \<open>created_at\<close>, filled by SQLite and read only by \<open>get_articles_by_status\<close>, is
  left out. \<open>fetched_at\<close> is the text of \<open>datetime.utcnow().isoformat()\<close>.
\<close>

record article_row =
  row_id :: int
  row_url_hash :: string
  row_url :: string
  row_title :: string
  row_source :: string
  row_published_at :: "string option"
  row_fetched_at :: string
  row_score :: "real option"
  row_score_reason :: "string option"
  row_status :: string

record content_row =
  gc_id :: int
  gc_article_id :: int
  gc_content_type :: string
  gc_content :: string

record database =
  articles :: "article_row list"
  articles_seq :: int
  generated_content :: "content_row list"
  generated_content_seq :: int

definition url_hash :: "python \<Rightarrow> string \<Rightarrow> string" where
  "url_hash py url = take 16 (sha256_hexdigest py url)"

definition article_exists :: "python \<Rightarrow> database \<Rightarrow> string \<Rightarrow> bool" where
  "article_exists py conn url = (url_hash py url \<in> set (map row_url_hash (articles conn)))"

definition insert_article ::
  "python \<Rightarrow> database \<Rightarrow> string \<Rightarrow> string \<Rightarrow> string \<Rightarrow> string option \<Rightarrow> string
   \<Rightarrow> exn + (int \<times> database)" where
  \<comment> \<open>\<open>url_hash\<close> is \<open>UNIQUE\<close>; the new id is one above every id used so far\<close>
  "insert_article py conn url title source published_at fetched_at =
     (if url_hash py url \<in> set (map row_url_hash (articles conn)) then Inl IntegrityError
      else
        (let lastrowid = fold max (map row_id (articles conn)) (articles_seq conn) + 1;
             row = \<lparr>row_id = lastrowid, row_url_hash = url_hash py url, row_url = url,
                    row_title = title, row_source = source, row_published_at = published_at,
                    row_fetched_at = fetched_at, row_score = None, row_score_reason = None,
                    row_status = ''new''\<rparr>
         in Inr (lastrowid, conn\<lparr>articles := articles conn @ [row], articles_seq := lastrowid\<rparr>)))"

definition update_score :: "database \<Rightarrow> int \<Rightarrow> real \<Rightarrow> string \<Rightarrow> string \<Rightarrow> database" where
  "update_score conn article_id score reason status =
     conn\<lparr>articles :=
       map (\<lambda>r. if row_id r = article_id
                then r\<lparr>row_score := Some score, row_score_reason := Some reason, row_status := status\<rparr>
                else r)
           (articles conn)\<rparr>"

definition insert_content :: "database \<Rightarrow> int \<Rightarrow> string \<Rightarrow> string \<Rightarrow> int \<times> database" where
  "insert_content conn article_id content_type content =
     (let lastrowid = fold max (map gc_id (generated_content conn)) (generated_content_seq conn) + 1;
          row = \<lparr>gc_id = lastrowid, gc_article_id = article_id, gc_content_type = content_type,
                 gc_content = content\<rparr>
      in (lastrowid, conn\<lparr>generated_content := generated_content conn @ [row],
                           generated_content_seq := lastrowid\<rparr>))"

section \<open>Scorer (src/scorer.py)\<close>

record ScoreResult =
  score :: real
  reason :: string
  is_bitcoin_relevant :: bool

text \<open>
  \<open>is_bitcoin_relevant\<close> holds the truth value of what the reply gave: the pipeline
  uses the field only as a condition. The default \<open>1\<close> of the score is given as the
  float it becomes, \<open>float(1) == 1.0\<close>.
\<close>

definition score_article ::
  "python \<Rightarrow> (request \<Rightarrow> string) \<Rightarrow> string \<Rightarrow> string \<Rightarrow> string \<Rightarrow> string \<Rightarrow> request list
   \<Rightarrow> (exn + ScoreResult) \<times> request list" where
  "score_article py client title summary source model sent =
     (let (response, sent) = messages_create client (Request model 256 (SCORING_PROMPT title source summary)) sent;
          text = payload_text response;
          attempt =
            (case json_loads py text of
               None \<Rightarrow> Inl JSONDecodeError
             | Some (JObj data) \<Rightarrow>
                 (case py_float py (dict_get data ''score'' (JNum 1)) of
                    Inl e \<Rightarrow> Inl e
                  | Inr s \<Rightarrow>
                      (case py_text (dict_get data ''reason'' (JStr ''No reason provided'')) of
                         Inl e \<Rightarrow> Inl e
                       | Inr r \<Rightarrow>
                           Inr \<lparr>score = s, reason = r,
                                is_bitcoin_relevant =
                                  py_truthy (dict_get data ''is_bitcoin_relevant'' (JBool False))\<rparr>))
             | Some _ \<Rightarrow> Inl AttributeError)
      in (case attempt of
            Inl e \<Rightarrow>
              (if caught e
               then Inr \<lparr>score = 1, reason = ''Failed to parse'', is_bitcoin_relevant = False\<rparr>
               else Inl e)
          | Inr result \<Rightarrow> Inr result,
          sent))"

section \<open>Generator (src/generator.py)\<close>

record GeneratedContent =
  tweet :: string
  thread :: string
  linkedin :: string

definition generate_content ::
  "python \<Rightarrow> (request \<Rightarrow> string) \<Rightarrow> string \<Rightarrow> string \<Rightarrow> string \<Rightarrow> string \<Rightarrow> string \<Rightarrow> string
   \<Rightarrow> request list \<Rightarrow> (exn + GeneratedContent) \<times> request list" where
  "generate_content py client title summary source url style_guide model sent =
     (let (response, sent) =
            messages_create client
              (Request model 1500 (GENERATION_PROMPT style_guide title source summary url)) sent;
          text = payload_text response;
          attempt =
            (case json_loads py text of
               None \<Rightarrow> Inl JSONDecodeError
             | Some (JObj data) \<Rightarrow>
                 (case py_text (dict_get data ''tweet'' (JStr [])) of
                    Inl e \<Rightarrow> Inl e
                  | Inr tw \<Rightarrow>
                      (case py_text (dict_get data ''thread'' (JStr [])) of
                         Inl e \<Rightarrow> Inl e
                       | Inr th \<Rightarrow>
                           (case py_text (dict_get data ''linkedin'' (JStr [])) of
                              Inl e \<Rightarrow> Inl e
                            | Inr li \<Rightarrow> Inr \<lparr>tweet = tw, thread = th, linkedin = li\<rparr>)))
             | Some _ \<Rightarrow> Inl AttributeError)
      in (case attempt of
            Inl e \<Rightarrow>
              (if caught e then Inr \<lparr>tweet = [], thread = [], linkedin = []\<rparr> else Inl e)
          | Inr result \<Rightarrow> Inr result,
          sent))"


section \<open>Fetcher (src/fetcher.py)\<close>

record Article =
  url :: string
  title :: string
  summary :: string
  source :: string
  published_at :: "string option"

text \<open>
  What lies outside the process during one run: the articles \<open>fetch_feed\<close> parses
  from a feed, the text the provider returns to a request, and the two clocks. The
  answers given while the \<open>k\<close>-th article of the run is processed are indexed by
  \<open>k\<close>, the counter \<open>processed\<close> of the pipeline. The provider always answers with
  a text: failures of the network and of SQLite are not modelled.
\<close>

record outside =
  fetch_feed :: "string \<Rightarrow> Article list"
  respond :: "int \<Rightarrow> request \<Rightarrow> string"
  utcnow_isoformat :: "int \<Rightarrow> string"
  now_strftime :: "int \<Rightarrow> string"

fun yield_unseen :: "string set \<Rightarrow> Article list \<Rightarrow> Article list" where
  \<comment> \<open>the inner loop of \<open>fetch_all_feeds\<close> over \<open>seen_urls\<close>\<close>
  "yield_unseen seen_urls [] = []"
| "yield_unseen seen_urls (article # rest) =
     (if url article \<notin> seen_urls
      then article # yield_unseen (insert (url article) seen_urls) rest
      else yield_unseen seen_urls rest)"

definition fetch_all_feeds :: "outside \<Rightarrow> string list \<Rightarrow> Article list" where
  "fetch_all_feeds out feed_urls = yield_unseen {} (concat (map (fetch_feed out) feed_urls))"

section \<open>Pipeline (src/pipeline.py)\<close>

record stats =
  fetched :: int
  new :: int
  skipped_duplicate :: int
  scored :: int
  generated :: int
  ready :: int
  review :: int
  archive :: int

text \<open>
  The state a run works on: the database behind \<open>conn\<close>, the files below the Silver
  Bullet space, and the requests sent to the provider so far.
\<close>

record world =
  db :: database
  files :: filesystem
  calls :: "request list"

definition categorize :: "real \<Rightarrow> real \<Rightarrow> real \<Rightarrow> stats \<Rightarrow> string \<times> string \<times> stats" where
  \<comment> \<open>"Determine category": the category, the status and the counter\<close>
  "categorize s score_high score_medium st =
     (if s \<ge> score_high then (''ready'', ''ready'', st\<lparr>ready := ready st + 1\<rparr>)
      else if s \<ge> score_medium then (''review'', ''review'', st\<lparr>review := review st + 1\<rparr>)
      else (''archive'', ''archived'', st\<lparr>archive := archive st + 1\<rparr>))"

definition process_article ::
  "python \<Rightarrow> outside \<Rightarrow> string \<Rightarrow> string \<Rightarrow> string \<Rightarrow> real \<Rightarrow> real \<Rightarrow> bool \<Rightarrow> int \<Rightarrow> Article
   \<Rightarrow> stats \<Rightarrow> world \<Rightarrow> world \<times> (exn + stats)" where
  \<comment> \<open>the loop body from "Insert article" on, for the article numbered \<open>processed\<close>\<close>
  "process_article py out silverbullet_space model style_guide score_high score_medium dry_run
                   processed article st w =
     (case insert_article py (db w) (url article) (title article) (source article)
             (published_at article) (utcnow_isoformat out processed) of
        Inl e \<Rightarrow> (w, Inl e)
      | Inr (article_id, conn) \<Rightarrow>
          (let w = w\<lparr>db := conn\<rparr>;
               (scored_or_raised, sent) =
                 score_article py (respond out processed) (title article) (summary article)
                   (source article) model (calls w);
               w = w\<lparr>calls := sent\<rparr>
           in case scored_or_raised of
                Inl e \<Rightarrow> (w, Inl e)
              | Inr score_result \<Rightarrow>
                  (let st = st\<lparr>scored := scored st + 1\<rparr>;
                       (category, status, st) =
                         categorize (score score_result) score_high score_medium st;
                       w = w\<lparr>db := update_score (db w) article_id (score score_result)
                                     (reason score_result) status\<rparr>;
                       generated_or_raised =
                         (if score score_result \<ge> score_medium \<and> is_bitcoin_relevant score_result
                          then
                            (let (content_or_raised, sent) =
                                   generate_content py (respond out processed) (title article)
                                     (summary article) (source article) (url article)
                                     style_guide model (calls w);
                                 w = w\<lparr>calls := sent\<rparr>
                             in case content_or_raised of
                                  Inl e \<Rightarrow> (w, Inl e)
                                | Inr content \<Rightarrow>
                                    (let st = st\<lparr>generated := generated st + 1\<rparr>;
                                         conn = db w;
                                         conn = (if tweet content \<noteq> []
                                                 then snd (insert_content conn article_id ''tweet'' (tweet content))
                                                 else conn);
                                         conn = (if thread content \<noteq> []
                                                 then snd (insert_content conn article_id ''thread'' (thread content))
                                                 else conn);
                                         conn = (if linkedin content \<noteq> []
                                                 then snd (insert_content conn article_id ''linkedin'' (linkedin content))
                                                 else conn)
                                     in (w\<lparr>db := conn\<rparr>,
                                         Inr (st, Some (tweet content), Some (thread content),
                                              Some (linkedin content)))))
                          else (w, Inr (st, None, None, None)))
                   in case generated_or_raised of
                        (w, Inl e) \<Rightarrow> (w, Inl e)
                      | (w, Inr (st, tw, th, li)) \<Rightarrow>
                          (if \<not> dry_run
                           then w\<lparr>files :=
                                  write_to_silverbullet silverbullet_space category (title article)
                                    (url article) (source article)
                                    (str_of_float py (score score_result)) (reason score_result)
                                    (now_strftime out processed) tw th li (files w)\<rparr>
                           else w,
                           Inr st))))"

fun pipeline_loop ::
  "python \<Rightarrow> outside \<Rightarrow> string \<Rightarrow> string \<Rightarrow> string \<Rightarrow> real \<Rightarrow> real \<Rightarrow> int \<Rightarrow> bool \<Rightarrow> Article list
   \<Rightarrow> int \<Rightarrow> stats \<Rightarrow> world \<Rightarrow> world \<times> (exn + stats)" where
  \<comment> \<open>\<open>for article in fetch_all_feeds(feeds)\<close>, with the counter \<open>processed\<close>\<close>
  "pipeline_loop py out silverbullet_space model style_guide score_high score_medium max_articles
                 dry_run [] processed st w = (w, Inr st)"
| "pipeline_loop py out silverbullet_space model style_guide score_high score_medium max_articles
                 dry_run (article # rest) processed st w =
     (let st = st\<lparr>fetched := fetched st + 1\<rparr>
      in if article_exists py (db w) (url article)
         then pipeline_loop py out silverbullet_space model style_guide score_high score_medium
                max_articles dry_run rest processed
                (st\<lparr>skipped_duplicate := skipped_duplicate st + 1\<rparr>) w
         else
           (let st = st\<lparr>new := new st + 1\<rparr>
            in if processed \<ge> max_articles then (w, Inr st)
               else
                 (case process_article py out silverbullet_space model style_guide score_high
                         score_medium dry_run (processed + 1) article st w of
                    (w, Inl e) \<Rightarrow> (w, Inl e)
                  | (w, Inr st) \<Rightarrow>
                      pipeline_loop py out silverbullet_space model style_guide score_high
                        score_medium max_articles dry_run rest (processed + 1) st w)))"

definition run_pipeline ::
  "python \<Rightarrow> outside \<Rightarrow> string list \<Rightarrow> string \<Rightarrow> string \<Rightarrow> string \<Rightarrow> real \<Rightarrow> real \<Rightarrow> int \<Rightarrow> bool
   \<Rightarrow> world \<Rightarrow> world \<times> (exn + stats)" where
  \<comment> \<open>the client and the connection that \<open>api_key\<close> and \<open>db_path\<close> open are
      \<open>respond out\<close> and \<open>db w\<close>\<close>
  "run_pipeline py out feeds silverbullet_space model style_guide score_high score_medium
                max_articles dry_run w =
     pipeline_loop py out silverbullet_space model style_guide score_high score_medium
       max_articles dry_run (fetch_all_feeds out feeds) 0
       \<lparr>fetched = 0, new = 0, skipped_duplicate = 0, scored = 0, generated = 0,
        ready = 0, review = 0, archive = 0\<rparr> w"

section \<open>Configuration and entry point (config.py, curator.py)\<close>

definition RSS_FEEDS :: "string list" where
  "RSS_FEEDS =
     [''https://bitcoinmagazine.com/.rss/full/'',
      ''https://www.coindesk.com/arc/outboundfeeds/rss/?outputType=xml'',
      ''https://cointelegraph.com/rss/tag/bitcoin'',
      ''https://bitcoinist.com/feed/'',
      ''https://news.bitcoin.com/feed/'',
      ''https://decrypt.co/feed'']"

definition SCORE_HIGH :: real where
  "SCORE_HIGH = 7"

definition SCORE_MEDIUM :: real where
  "SCORE_MEDIUM = 4"

definition CLAUDE_MODEL :: string where
  "CLAUDE_MODEL = ''claude-sonnet-4-20250514''"

definition MAX_ARTICLES_PER_RUN :: int where
  "MAX_ARTICLES_PER_RUN = 20"

definition CONTENT_STYLE :: string where
  "CONTENT_STYLE =
     ''\<newline>You write as a Bitcoin-focused content creator. Your style is:\<newline>''
     @ ''- Knowledgeable but accessible\<newline>''
     @ ''- Focused on Bitcoin (not crypto in general)\<newline>''
     @ ''- Signal over noise - cut through hype\<newline>''
     @ ''- Balanced perspective - acknowledge both opportunities and risks\<newline>''
     @ ''- No shilling or price predictions\<newline>''"

text \<open>
  The parsed command line; \<open>default_args\<close> is what \<open>argparse\<close> returns when no option
  is given, \<open>space\<close> being the configured \<open>SILVERBULLET_SPACE\<close>.
\<close>

record args =
  arg_dry_run :: bool
  arg_max_articles :: int
  arg_score_high :: real
  arg_score_medium :: real
  arg_space :: string

definition default_args :: "string \<Rightarrow> args" where
  "default_args space =
     \<lparr>arg_dry_run = False, arg_max_articles = MAX_ARTICLES_PER_RUN,
      arg_score_high = SCORE_HIGH, arg_score_medium = SCORE_MEDIUM, arg_space = space\<rparr>"

datatype outcome =
    SysExit int
  | Raised exn
  | Finished stats

definition main :: "python \<Rightarrow> outside \<Rightarrow> string option \<Rightarrow> args \<Rightarrow> world \<Rightarrow> world \<times> outcome" where
  \<comment> \<open>\<open>api_key\<close> is \<open>os.environ.get("ANTHROPIC_API_KEY")\<close>\<close>
  "main py out api_key a w =
     (if api_key = None \<or> api_key = Some [] then (w, SysExit 1)
      else
        (case run_pipeline py out RSS_FEEDS (arg_space a) CLAUDE_MODEL CONTENT_STYLE
                (arg_score_high a) (arg_score_medium a) (arg_max_articles a) (arg_dry_run a) w of
           (w, Inl e) \<Rightarrow> (w, Raised e)
         | (w, Inr st) \<Rightarrow> (w, Finished st)))"


section \<open>Notions used in the statements\<close>

text \<open>
  The header of a category file up to and including its terminating delimiter line:
  the first four lines of \<open>get_header\<close>.
\<close>

definition header_block :: "string \<Rightarrow> string" where
  "header_block category =
     ''---\<newline>title: '' @ titles category @ ''\<newline>tags: #content #bitcoin\<newline>---''"

text \<open>The arguments of one call of \<open>write_to_silverbullet\<close>, and the entry it renders.\<close>

record post =
  post_title :: string
  post_url :: string
  post_source :: string
  post_score :: string
  post_reason :: string
  post_now :: string
  post_tweet :: "string option"
  post_thread :: "string option"
  post_linkedin :: "string option"

definition entry_of :: "post \<Rightarrow> string" where
  "entry_of p =
     format_entry (post_title p) (post_url p) (post_source p) (post_score p) (post_reason p)
       (post_now p) (post_tweet p) (post_thread p) (post_linkedin p)"

definition append_post :: "string \<Rightarrow> string \<Rightarrow> post \<Rightarrow> filesystem \<Rightarrow> filesystem" where
  "append_post space_path category p fs =
     write_to_silverbullet space_path category (post_title p) (post_url p) (post_source p)
       (post_score p) (post_reason p) (post_now p) (post_tweet p) (post_thread p)
       (post_linkedin p) fs"

text \<open>
  What the schema and \<open>insert_article\<close> maintain: every row carries the hash of its own
  URL, and no hash occurs twice (\<open>url_hash TEXT UNIQUE\<close>).
\<close>

definition store_consistent :: "python \<Rightarrow> database \<Rightarrow> bool" where
  "store_consistent py conn =
     (list_all (\<lambda>r. row_url_hash r = url_hash py (row_url r)) (articles conn)
      \<and> distinct (map row_url_hash (articles conn)))"

definition scoring_request :: "string \<Rightarrow> Article \<Rightarrow> request" where
  "scoring_request model article =
     Request model 256 (SCORING_PROMPT (title article) (source article) (summary article))"

definition generation_request :: "string \<Rightarrow> string \<Rightarrow> Article \<Rightarrow> request" where
  "generation_request model style_guide article =
     Request model 1500
       (GENERATION_PROMPT style_guide (title article) (source article) (summary article) (url article))"

subsection \<open>A small environment for concrete runs\<close>

text \<open>
  The provider answers a scoring request with the summary of the article and a
  generation request with \<open>posts\<close>; \<open>json.loads\<close> knows five documents.
\<close>

definition test_python :: python where
  "test_python =
     \<lparr>json_loads = (\<lambda>s.
        if s = ''high'' then
          Some (JObj [(''score'', JNum 8), (''reason'', JStr ''protocol news''),
                      (''is_bitcoin_relevant'', JBool True)])
        else if s = ''mid'' then
          Some (JObj [(''score'', JNum 4), (''reason'', JStr ''some value''),
                      (''is_bitcoin_relevant'', JBool False)])
        else if s = ''posts'' then
          Some (JObj [(''tweet'', JStr ''a tweet''), (''thread'', JStr []),
                      (''linkedin'', JStr ''a post'')])
        else if s = ''[1, 2]'' then Some (JArr [JInt 1, JInt 2])
        else if s = ''null'' then Some JNull
        else None),
      float_of_str = (\<lambda>s. None),
      float_of_int = (\<lambda>n. Some (of_int n)),
      str_of_float = (\<lambda>x. if x = 8 then ''8.0'' else if x = 4 then ''4.0'' else ''1''),
      sha256_hexdigest = rev\<rparr>"

definition lightning :: Article where
  "lightning =
     \<lparr>url = ''https://a.example/ln'', title = ''Lightning Network adoption grows'',
      summary = ''high'', source = ''Bitcoin Magazine'', published_at = None\<rparr>"

definition roundup :: Article where
  "roundup =
     \<lparr>url = ''https://a.example/roundup'', title = ''Weekly roundup'',
      summary = ''mid'', source = ''Bitcoin Magazine'', published_at = None\<rparr>"

definition garbled :: Article where
  "garbled =
     \<lparr>url = ''https://a.example/x'', title = ''Untitled'',
      summary = ''no json here'', source = ''Bitcoin Magazine'', published_at = None\<rparr>"

definition listed :: Article where
  "listed =
     \<lparr>url = ''https://a.example/list'', title = ''Two numbers'',
      summary = ''[1, 2]'', source = ''Bitcoin Magazine'', published_at = None\<rparr>"

definition test_outside :: outside where
  "test_outside =
     \<lparr>fetch_feed = (\<lambda>feed_url.
        if feed_url = ''https://bitcoinmagazine.com/.rss/full/'' then [lightning, roundup]
        else if feed_url = ''https://b.example/feed'' then [lightning, garbled, roundup]
        else if feed_url = ''https://c.example/feed'' then [listed, roundup]
        else []),
      respond = (\<lambda>k req.
        case req of
          Request m n (SCORING_PROMPT t so su) \<Rightarrow> su
        | Request m n (GENERATION_PROMPT sg t so su u) \<Rightarrow> ''posts''),
      utcnow_isoformat = (\<lambda>k. ''2026-01-01T00:00:00''),
      now_strftime = (\<lambda>k. ''2026-01-01 00:00'')\<rparr>"

definition empty_database :: database where
  "empty_database =
     \<lparr>articles = [], articles_seq = 0, generated_content = [], generated_content_seq = 0\<rparr>"

definition fresh_world :: world where
  "fresh_world = \<lparr>db = empty_database, files = Map.empty, calls = []\<rparr>"

definition post_a :: post where
  "post_a =
     \<lparr>post_title = ''A'', post_url = ''u1'', post_source = ''S'', post_score = ''8.0'',
      post_reason = ''good'', post_now = ''2026-01-01 00:00'', post_tweet = Some ''hi'',
      post_thread = None, post_linkedin = Some []\<rparr>"

definition post_b :: post where
  "post_b =
     \<lparr>post_title = ''B'', post_url = ''u2'', post_source = ''S'', post_score = ''5.0'',
      post_reason = ''fair'', post_now = ''2026-01-02 00:00'', post_tweet = None,
      post_thread = None, post_linkedin = None\<rparr>"

definition seen_world :: world where
  \<comment> \<open>the world after a first run over the first feed\<close>
  "seen_world =
     fst (run_pipeline test_python test_outside [''https://bitcoinmagazine.com/.rss/full/'']
            ''sp'' ''m'' ''sg'' 7 4 20 False fresh_world)"

section \<open>The category files\<close>

lemma get_header_block: "get_header c = header_block c @ ''\<newline>\<newline>''"
  by (simp add: get_header_def header_block_def)

lemma split_nl_nonempty: "split_nl s \<noteq> []"
  by (induction s) (auto split: list.splits)

lemma split_nl_line: "CHR 0x0A \<notin> set a \<Longrightarrow> split_nl (a @ CHR 0x0A # b) = a # split_nl b"
  by (induction a) (auto split: list.splits)

lemma join_nl_Cons: "ls \<noteq> [] \<Longrightarrow> join_nl (l # ls) = l @ CHR 0x0A # join_nl ls"
  by (cases ls) auto

lemma join_split_nl: "join_nl (split_nl s) = s"
proof (induction s)
  case Nil
  then show ?case by simp
next
  case (Cons c cs)
  show ?case
  proof (cases "c = CHR 0x0A")
    case True
    then show ?thesis using Cons by (simp add: join_nl_Cons split_nl_nonempty)
  next
    case False
    obtain l ls where sp: "split_nl cs = l # ls"
      using split_nl_nonempty by (cases "split_nl cs") auto
    have "join_nl ((c # l) # ls) = c # join_nl (l # ls)"
      by (cases ls) auto
    then show ?thesis using Cons False sp by simp
  qed
qed

lemma titles_no_nl: "CHR 0x0A \<notin> set (titles c)"
  by (simp add: titles_def)

lemma split_header_block:
  "split_nl (header_block c @ CHR 0x0A # body) =
     [''---'', ''title: '' @ titles c, ''tags: #content #bitcoin'', ''---''] @ split_nl body"
proof -
  have 1: "split_nl (''title: '' @ titles c @ CHR 0x0A # rest) = (''title: '' @ titles c) # split_nl rest" for rest
    using split_nl_line [of "''title: '' @ titles c" rest] titles_no_nl [of c] by simp
  have 2: "split_nl (''tags: #content #bitcoin'' @ CHR 0x0A # rest) = ''tags: #content #bitcoin'' # split_nl rest" for rest
    using split_nl_line [of "''tags: #content #bitcoin''" rest] by simp
  have 3: "split_nl (''---'' @ CHR 0x0A # rest) = ''---'' # split_nl rest" for rest
    using split_nl_line [of "''---''" rest] by simp
  have "header_block c @ CHR 0x0A # body =
        ''---'' @ CHR 0x0A # (''title: '' @ titles c @ CHR 0x0A # (''tags: #content #bitcoin'' @ CHR 0x0A # (''---'' @ CHR 0x0A # body)))"
    by (simp add: header_block_def)
  then show ?thesis
    by (simp only: 1 2 3) simp
qed

lemma find_header_end_block:
  "find_header_end 0 ([''---'', ''title: '' @ titles c, ''tags: #content #bitcoin'', ''---''] @ ls) = 4"
  by (simp add: startswith_def)

lemma join_header_lines:
  "join_nl [''---'', ''title: '' @ titles c, ''tags: #content #bitcoin'', ''---''] = header_block c"
  by (simp add: header_block_def)

lemma py_rstrip_rule:
  "\<forall>c\<in>set ws. py_isspace c \<Longrightarrow> py_rstrip (t @ ''---'' @ ws) = t @ ''---''"
proof -
  assume ws: "\<forall>c\<in>set ws. py_isspace c"
  have "dropWhile py_isspace (rev ws @ ''---'' @ rev t) = ''---'' @ rev t"
    using ws by (simp add: dropWhile_append3 py_isspace_def)
  then show ?thesis by (simp add: py_rstrip_def)
qed

lemma py_lstrip_header: "py_lstrip (header_block c @ rest) = header_block c @ rest"
  by (simp add: py_lstrip_def header_block_def py_isspace_def)


lemma format_entry_tail:
  "\<exists>e. format_entry t u so sc why now tw th li = e @ ''---\<newline>''"
  by (simp add: format_entry_def Let_def)

lemma strip_log:
  "py_strip (header_block c @ t @ ''---'' @ ws) @ ''\<newline>'' = header_block c @ t @ ''---\<newline>''"
  if "\<forall>x\<in>set ws. py_isspace x"
proof -
  have "py_rstrip ((header_block c @ t) @ ''---'' @ ws) = (header_block c @ t) @ ''---''"
    using that by (rule py_rstrip_rule)
  then show ?thesis
    by (simp add: py_strip_def py_lstrip_header)
qed

lemma append_content_existing:
  assumes "fs (sp, filename_map cat) = Some (header_block c0 @ ''\<newline>'' @ b @ ''---\<newline>'')"
  shows "append_content sp cat t u so sc why now tw th li True fs =
         fs((sp, filename_map cat) \<mapsto>
            header_block c0 @ ''\<newline>''
              @ format_entry t u so sc why now tw th li
              @ ''\<newline>'' @ b @ ''---\<newline>'')"
proof -
  let ?existing = "header_block c0 @ ''\<newline>'' @ b @ ''---\<newline>''"
  let ?hl = "[''---'', ''title: '' @ titles c0, ''tags: #content #bitcoin'', ''---'']"
  let ?entry = "format_entry t u so sc why now tw th li"
  have ne: "?existing \<noteq> []" by (simp add: header_block_def)
  have rd: "read_existing fs (sp, filename_map cat) = ?existing"
    using assms by (simp add: read_existing_def)
  have sp: "split_nl ?existing = ?hl @ split_nl (b @ ''---\<newline>'')"
    using split_header_block [of c0 "b @ ''---\<newline>''"] by simp
  have he: "find_header_end 0 (split_nl ?existing) = 4"
    unfolding sp by (rule find_header_end_block)
  have tk: "join_nl (take 4 (split_nl ?existing)) = header_block c0"
    unfolding sp using join_header_lines [of c0] by simp
  have dr: "join_nl (drop 4 (split_nl ?existing)) = b @ ''---\<newline>''"
    unfolding sp by (simp add: join_split_nl)
  have st: "py_strip (header_block c0 @ ''\<newline>'' @ ?entry @ ''\<newline>'' @ b @ ''---\<newline>'') @ ''\<newline>''
            = header_block c0 @ ''\<newline>'' @ ?entry @ ''\<newline>'' @ b @ ''---\<newline>''"
    using strip_log [of "''\<newline>''" c0 "''\<newline>'' @ ?entry @ ''\<newline>'' @ b"]
    by (simp add: py_isspace_def)
  show ?thesis
    unfolding append_content_def Let_def rd
    using ne he tk dr st by simp
qed

lemma append_content_new:
  assumes "fs (sp, filename_map cat) = None \<or> fs (sp, filename_map cat) = Some []"
  shows "append_content sp cat t u so sc why now tw th li True fs =
         fs((sp, filename_map cat) \<mapsto>
            header_block cat @ ''\<newline>''
              @ format_entry t u so sc why now tw th li)"
proof -
  let ?hl = "[''---'', ''title: '' @ titles cat, ''tags: #content #bitcoin'', ''---'']"
  let ?entry = "format_entry t u so sc why now tw th li"
  obtain e where e: "?entry = e @ ''---\<newline>''"
    using format_entry_tail by blast
  have rd: "read_existing fs (sp, filename_map cat) = []"
    using assms by (auto simp: read_existing_def)
  have hd: "get_header cat = header_block cat @ CHR 0x0A # ''\<newline>''"
    by (simp add: get_header_block)
  have sp: "split_nl (get_header cat) = ?hl @ split_nl ''\<newline>''"
    unfolding hd by (rule split_header_block)
  have he: "find_header_end 0 (split_nl (get_header cat)) = 4"
    unfolding sp by (rule find_header_end_block)
  have tk: "join_nl (take 4 (split_nl (get_header cat))) = header_block cat"
    unfolding sp using join_header_lines [of cat] by simp
  have dr: "join_nl (drop 4 (split_nl (get_header cat))) = ''\<newline>''"
    unfolding sp by simp
  have st: "py_strip (header_block cat @ ''\<newline>'' @ ?entry @ ''\<newline>'' @ ''\<newline>'') @ ''\<newline>''
            = header_block cat @ ''\<newline>'' @ ?entry"
    unfolding e
    using strip_log [of "''\<newline>\<newline>\<newline>''" cat "''\<newline>'' @ e"]
    by (simp add: py_isspace_def)
  have gh: "get_header cat \<noteq> []" by (simp add: get_header_def)
  show ?thesis
    unfolding append_content_def Let_def rd
    using gh he tk dr st by simp
qed


lemma entries_shape:
  "qs \<noteq> [] \<Longrightarrow> \<exists>b. concat (map (\<lambda>q. ''\<newline>'' @ entry_of q) qs) = ''\<newline>'' @ b @ ''---\<newline>''"
proof (induction qs)
  case Nil
  then show ?case by simp
next
  case (Cons q qs)
  obtain e where e: "entry_of q = e @ ''---\<newline>''"
    unfolding entry_of_def using format_entry_tail by blast
  show ?case
  proof (cases "qs = []")
    case True
    then show ?thesis using e by simp
  next
    case False
    then obtain b where "concat (map (\<lambda>q. ''\<newline>'' @ entry_of q) qs) = ''\<newline>'' @ b @ ''---\<newline>''"
      using Cons.IH by blast
    then have "concat (map (\<lambda>q. ''\<newline>'' @ entry_of q) (q # qs)) =
               ''\<newline>'' @ (entry_of q @ ''\<newline>'' @ b) @ ''---\<newline>''"
      by simp
    then show ?thesis by blast
  qed
qed

lemma append_post_new:
  assumes "fs (sp, filename_map cat) = None"
  shows "append_post sp cat p fs =
         fs((sp, filename_map cat) \<mapsto> header_block cat @ concat (map (\<lambda>q. ''\<newline>'' @ entry_of q) [p]))"
  using append_content_new [of fs sp cat] assms
  by (simp add: append_post_def write_to_silverbullet_def entry_of_def)

lemma append_post_existing:
  assumes "fs (sp, filename_map cat) = Some (header_block c0 @ concat (map (\<lambda>q. ''\<newline>'' @ entry_of q) qs))"
      and "qs \<noteq> []"
  shows "append_post sp cat p fs =
         fs((sp, filename_map cat) \<mapsto> header_block c0 @ concat (map (\<lambda>q. ''\<newline>'' @ entry_of q) (p # qs)))"
proof -
  obtain b where b: "concat (map (\<lambda>q. ''\<newline>'' @ entry_of q) qs) = ''\<newline>'' @ b @ ''---\<newline>''"
    using entries_shape [OF assms(2)] by blast
  have "fs (sp, filename_map cat) = Some (header_block c0 @ ''\<newline>'' @ b @ ''---\<newline>'')"
    using assms(1) unfolding b .
  then have "append_post sp cat p fs =
             fs((sp, filename_map cat) \<mapsto>
                header_block c0 @ ''\<newline>'' @ entry_of p @ ''\<newline>'' @ b @ ''---\<newline>'')"
    using append_content_existing [of fs sp cat c0 b]
    by (simp add: append_post_def write_to_silverbullet_def entry_of_def)
  moreover have "concat (map (\<lambda>q. ''\<newline>'' @ entry_of q) (p # qs)) =
                 ''\<newline>'' @ entry_of p @ ''\<newline>'' @ b @ ''---\<newline>''"
    using b by simp
  ultimately show ?thesis by simp
qed

lemma fold_append_post:
  assumes "fs (sp, filename_map cat) = None"
  shows "fold (append_post sp cat) (ps @ [p]) fs =
         fs((sp, filename_map cat) \<mapsto>
            header_block cat @ concat (map (\<lambda>q. ''\<newline>'' @ entry_of q) (p # rev ps)))"
proof (induction ps arbitrary: p rule: rev_induct)
  case Nil
  show ?case using append_post_new [of fs sp cat p] assms by simp
next
  case (snoc x xs)
  define g where "g = fold (append_post sp cat) (xs @ [x]) fs"
  define k where "k = (sp, filename_map cat)"
  have IH: "g = fs(k \<mapsto> header_block cat @ concat (map (\<lambda>q. ''\<newline>'' @ entry_of q) (x # rev xs)))"
    unfolding g_def k_def by (rule snoc.IH)
  have 1: "g (sp, filename_map cat) =
           Some (header_block cat @ concat (map (\<lambda>q. ''\<newline>'' @ entry_of q) (x # rev xs)))"
    unfolding IH k_def by simp
  have 2: "append_post sp cat p g =
           g(k \<mapsto> header_block cat @ concat (map (\<lambda>q. ''\<newline>'' @ entry_of q) (p # x # rev xs)))"
    unfolding k_def by (rule append_post_existing [of g sp cat cat "x # rev xs" p]) (simp_all add: 1)
  have "fold (append_post sp cat) ((xs @ [x]) @ [p]) fs = append_post sp cat p g"
    unfolding g_def by (simp only: fold_append fold.simps comp_def id_def)
  also have "\<dots> = fs(k \<mapsto> header_block cat @ concat (map (\<lambda>q. ''\<newline>'' @ entry_of q) (p # x # rev xs)))"
    unfolding 2 unfolding IH by simp
  finally show ?case unfolding k_def by simp
qed

text \<open>
  C6. Appending to a category file that does not exist creates the header once; every
  later append leaves that header alone and puts the new entry right after the header's
  terminating delimiter line, before the entries written earlier. So after the posts
  \<open>ps @ [p]\<close> have been written in this order, the file is the header block followed
  by the entries, newest first.
\<close>

theorem log_header_once_newest_first:
  assumes "fs (sp, filename_map cat) = None"
  shows "get_header cat = header_block cat @ ''\<newline>\<newline>''
       \<and> fold (append_post sp cat) (ps @ [p]) fs =
         fs((sp, filename_map cat) \<mapsto>
            header_block cat @ concat (map (\<lambda>q. ''\<newline>'' @ entry_of q) (p # rev ps)))"
  using fold_append_post [of fs sp cat ps p] assms get_header_block [of cat] by simp

theorem log_header_once_newest_first_witness:
  "Map.empty (''sp'', filename_map ''ready'') = None
   \<and> fold (append_post ''sp'' ''ready'') ([post_a] @ [post_b]) Map.empty
         (''sp'', ''Content/ReadyToPost.md'') =
       Some (''---\<newline>title: Ready to Post\<newline>tags: #content #bitcoin\<newline>---\<newline>''
             @ ''\<newline>## B\<newline>\<newline>**Source:** S | **Score:** 5.0/10 | **Added:** 2026-01-02 00:00\<newline>''
             @ ''**Link:** u2\<newline>**Why:** fair\<newline>\<newline>---\<newline>''
             @ ''\<newline>\<newline>## A\<newline>\<newline>**Source:** S | **Score:** 8.0/10 | **Added:** 2026-01-01 00:00\<newline>''
             @ ''**Link:** u1\<newline>**Why:** good\<newline>\<newline>### Tweet\<newline>```\<newline>hi\<newline>```\<newline>\<newline>---\<newline>'')"
proof -
  have h: "Map.empty (''sp'', filename_map ''ready'') = (None :: string option)"
    by simp
  have "fold (append_post ''sp'' ''ready'') ([post_a] @ [post_b]) Map.empty =
        Map.empty((''sp'', filename_map ''ready'') \<mapsto>
          header_block ''ready'' @ concat (map (\<lambda>q. ''\<newline>'' @ entry_of q) (post_b # rev [post_a])))"
    using log_header_once_newest_first [of Map.empty "''sp''" "''ready''" "[post_a]" post_b] h
    by blast
  then show ?thesis
    by (simp add: filename_map_def header_block_def titles_def entry_of_def format_entry_def
        truthy_text_def post_a_def post_b_def)
qed

text \<open>
  C10. A category other than \<open>ready\<close>, \<open>review\<close> and \<open>archive\<close> is written to
  \<open>Content/Other.md\<close> below the space path, under the header titled \<open>Content\<close>:
  the first append creates header and entry, a later one splices the entry in after the
  header, as for the three known categories.
\<close>

theorem other_category_falls_back:
  assumes "cat \<noteq> ''ready''" and "cat \<noteq> ''review''" and "cat \<noteq> ''archive''"
  shows "filename_map cat = ''Content/Other.md''
       \<and> header_block cat = ''---\<newline>title: Content\<newline>tags: #content #bitcoin\<newline>---''
       \<and> (fs (sp, ''Content/Other.md'') = None \<longrightarrow>
            append_content sp cat t u so sc why now tw th li True fs =
            fs((sp, ''Content/Other.md'') \<mapsto>
               header_block cat @ ''\<newline>'' @ format_entry t u so sc why now tw th li))
       \<and> (fs (sp, ''Content/Other.md'') = Some (header_block cat @ ''\<newline>'' @ b @ ''---\<newline>'') \<longrightarrow>
            append_content sp cat t u so sc why now tw th li True fs =
            fs((sp, ''Content/Other.md'') \<mapsto>
               header_block cat @ ''\<newline>'' @ format_entry t u so sc why now tw th li
                 @ ''\<newline>'' @ b @ ''---\<newline>''))"
proof -
  have f: "filename_map cat = ''Content/Other.md''"
    using assms by (simp add: filename_map_def)
  have h: "header_block cat = ''---\<newline>title: Content\<newline>tags: #content #bitcoin\<newline>---''"
    using assms by (simp add: header_block_def titles_def)
  have n: "fs (sp, ''Content/Other.md'') = None \<Longrightarrow>
            append_content sp cat t u so sc why now tw th li True fs =
            fs((sp, ''Content/Other.md'') \<mapsto>
               header_block cat @ ''\<newline>'' @ format_entry t u so sc why now tw th li)"
    using append_content_new [of fs sp cat] f by simp
  have e: "fs (sp, ''Content/Other.md'') = Some (header_block cat @ ''\<newline>'' @ b @ ''---\<newline>'') \<Longrightarrow>
            append_content sp cat t u so sc why now tw th li True fs =
            fs((sp, ''Content/Other.md'') \<mapsto>
               header_block cat @ ''\<newline>'' @ format_entry t u so sc why now tw th li
                 @ ''\<newline>'' @ b @ ''---\<newline>'')"
    using append_content_existing [of fs sp cat cat b] f by simp
  show ?thesis using f h n e by blast
qed


theorem other_category_falls_back_witness:
  "''news'' \<noteq> ''ready'' \<and> ''news'' \<noteq> ''review'' \<and> ''news'' \<noteq> ''archive''
   \<and> filename_map ''news'' = ''Content/Other.md''
   \<and> append_content ''sp'' ''news'' ''A'' ''u1'' ''S'' ''8.0'' ''good'' ''2026-01-01 00:00''
         None None None True Map.empty (''sp'', ''Content/Other.md'') =
       Some (''---\<newline>title: Content\<newline>tags: #content #bitcoin\<newline>---\<newline>''
             @ ''\<newline>## A\<newline>\<newline>**Source:** S | **Score:** 8.0/10 | **Added:** 2026-01-01 00:00\<newline>''
             @ ''**Link:** u1\<newline>**Why:** good\<newline>\<newline>---\<newline>'')"
proof -
  have h: "''news'' \<noteq> ''ready''" "''news'' \<noteq> ''review''" "''news'' \<noteq> ''archive''"
    by simp_all
  have n: "Map.empty (''sp'', ''Content/Other.md'') = (None :: string option)"
    by simp
  have "append_content ''sp'' ''news'' ''A'' ''u1'' ''S'' ''8.0'' ''good'' ''2026-01-01 00:00''
          None None None True Map.empty =
        Map.empty((''sp'', ''Content/Other.md'') \<mapsto>
          header_block ''news'' @ ''\<newline>''
            @ format_entry ''A'' ''u1'' ''S'' ''8.0'' ''good'' ''2026-01-01 00:00'' None None None)"
    using other_category_falls_back [OF h, of Map.empty "''sp''"] n by blast
  then show ?thesis
    by (simp add: filename_map_def header_block_def titles_def format_entry_def truthy_text_def)
qed

section \<open>Scoring and generation\<close>

lemma score_article_unparseable:
  assumes "json_loads py (payload_text (client (Request model 256 (SCORING_PROMPT t so su)))) = None"
  shows "score_article py client t su so model sent =
         (Inr \<lparr>score = 1, reason = ''Failed to parse'', is_bitcoin_relevant = False\<rparr>,
          sent @ [Request model 256 (SCORING_PROMPT t so su)])"
  using assms by (simp add: score_article_def messages_create_def caught_def)

lemma insert_article_new:
  assumes "\<not> article_exists py conn u"
  shows "insert_article py conn u t so p f =
         Inr (fold max (map row_id (articles conn)) (articles_seq conn) + 1,
              conn\<lparr>articles := articles conn @
                     [\<lparr>row_id = fold max (map row_id (articles conn)) (articles_seq conn) + 1,
                       row_url_hash = url_hash py u, row_url = u, row_title = t, row_source = so,
                       row_published_at = p, row_fetched_at = f, row_score = None,
                       row_score_reason = None, row_status = ''new''\<rparr>],
                   articles_seq := fold max (map row_id (articles conn)) (articles_seq conn) + 1\<rparr>)"
  using assms by (simp add: insert_article_def article_exists_def Let_def)

text \<open>
  Text that \<open>json.loads\<close> rejects reaches the handler: \<open>score_article\<close> returns
  the sentinel (score 1, reason \<open>Failed to parse\<close>, not relevant), the article is
  processed to the end without an exception, and the loop goes on with the articles
  after it. So does a score of a type that \<open>float\<close> rejects with \<open>TypeError\<close>.
\<close>

lemma score_article_parse_failure:
  assumes "json_loads py (payload_text (respond out k (scoring_request model a))) = None"
  shows "score_article py (respond out k) (title a) (summary a) (source a) model sent =
           (Inr \<lparr>score = 1, reason = ''Failed to parse'', is_bitcoin_relevant = False\<rparr>,
            sent @ [scoring_request model a])
       \<and> (\<not> article_exists py (db w) (url a) \<and> processed < max_articles \<and> k = processed + 1 \<longrightarrow>
            (case process_article py out sp model sg hi med dry k a
                    (st\<lparr>fetched := fetched st + 1, new := new st + 1\<rparr>) w of
               (w', Inr st') \<Rightarrow>
                 pipeline_loop py out sp model sg hi med max_articles dry (a # rest) processed st w =
                 pipeline_loop py out sp model sg hi med max_articles dry rest k st' w'
             | (w', Inl e) \<Rightarrow> False))"
proof -
  have sc: "score_article py (respond out k) (title a) (summary a) (source a) model s =
           (Inr \<lparr>score = 1, reason = ''Failed to parse'', is_bitcoin_relevant = False\<rparr>,
            s @ [scoring_request model a])" for s
    using assms score_article_unparseable [of py "respond out k" model "title a" "source a" "summary a" s]
    by (simp add: scoring_request_def)
  have "case process_article py out sp model sg hi med dry k a
                    (st\<lparr>fetched := fetched st + 1, new := new st + 1\<rparr>) w of
               (w', Inr st') \<Rightarrow>
                 pipeline_loop py out sp model sg hi med max_articles dry (a # rest) processed st w =
                 pipeline_loop py out sp model sg hi med max_articles dry rest k st' w'
             | (w', Inl e) \<Rightarrow> False"
    if new: "\<not> article_exists py (db w) (url a)" and budget: "processed < max_articles"
      and k: "k = processed + 1"
  proof -
    have "\<exists>w' st'. process_article py out sp model sg hi med dry k a
                    (st\<lparr>fetched := fetched st + 1, new := new st + 1\<rparr>) w = (w', Inr st')"
      unfolding process_article_def insert_article_new [OF new]
      by (simp add: sc Let_def split: prod.splits)
    then obtain w' st' where p: "process_article py out sp model sg hi med dry k a
                    (st\<lparr>fetched := fetched st + 1, new := new st + 1\<rparr>) w = (w', Inr st')"
      by blast
    show ?thesis
      using p new budget k by (simp add: Let_def)
  qed
  then have "\<not> article_exists py (db w) (url a) \<and> processed < max_articles \<and> k = processed + 1 \<longrightarrow>
            (case process_article py out sp model sg hi med dry k a
                    (st\<lparr>fetched := fetched st + 1, new := new st + 1\<rparr>) w of
               (w', Inr st') \<Rightarrow>
                 pipeline_loop py out sp model sg hi med max_articles dry (a # rest) processed st w =
                 pipeline_loop py out sp model sg hi med max_articles dry rest k st' w'
             | (w', Inl e) \<Rightarrow> False)"
    by (intro impI) (elim conjE)
  with sc [of sent] show ?thesis by (intro conjI)
qed

lemma score_article_type_error:
  assumes "json_loads py (payload_text (client (Request model 256 (SCORING_PROMPT t so su)))) = Some (JObj d)"
      and "py_float py (dict_get d ''score'' (JNum 1)) = Inl TypeError"
  shows "fst (score_article py client t su so model sent) =
         Inr \<lparr>score = 1, reason = ''Failed to parse'', is_bitcoin_relevant = False\<rparr>"
  using assms by (simp add: score_article_def messages_create_def caught_def)

text \<open>
  A score given as a string that \<open>float\<close> rejects raises \<open>ValueError\<close>, which the
  handler does not catch.
\<close>

lemma score_article_score_not_a_number:
  assumes "json_loads py (payload_text (client (Request model 256 (SCORING_PROMPT t so su)))) =
           Some (JObj [(''score'', JStr s)])"
      and "float_of_str py s = None"
  shows "fst (score_article py client t su so model sent) = Inl ValueError"
  using assms by (simp add: score_article_def messages_create_def caught_def dict_get_def)

lemma score_article_non_dict:
  assumes "json_loads py (payload_text (client (Request model 256 (SCORING_PROMPT t so su)))) = Some v"
      and "\<not> is_dict v"
  shows "score_article py client t su so model sent =
         (Inl AttributeError, sent @ [Request model 256 (SCORING_PROMPT t so su)])"
  using assms
  by (cases v) (simp_all add: score_article_def messages_create_def caught_def)

text \<open>
  C7, where the code falls short of it. A scoring reply that parses to a JSON value
  other than an object (a list, a number, a string, \<open>null\<close>) makes \<open>data.get\<close>
  raise \<open>AttributeError\<close>, which the handler of \<open>score_article\<close> does not catch:
  \<open>score_article\<close> raises instead of returning the sentinel, and a run that meets
  such a reply for a new article within the budget ends with that exception, the
  article left in the store with status \<open>new\<close>.
\<close>

theorem score_article_raises_on_non_object:
  assumes "json_loads py (payload_text (respond out k (scoring_request model a))) = Some v"
      and "\<not> is_dict v"
  shows "score_article py (respond out k) (title a) (summary a) (source a) model sent =
           (Inl AttributeError, sent @ [scoring_request model a])
       \<and> (\<not> article_exists py (db w) (url a) \<and> processed < max_articles \<and> k = processed + 1 \<longrightarrow>
            snd (pipeline_loop py out sp model sg hi med max_articles dry (a # rest) processed st w) =
              Inl AttributeError
          \<and> map row_status (articles (db (fst
                (pipeline_loop py out sp model sg hi med max_articles dry (a # rest) processed st w)))) =
              map row_status (articles (db w)) @ [''new''])"
proof -
  have sc: "score_article py (respond out k) (title a) (summary a) (source a) model s =
            (Inl AttributeError, s @ [scoring_request model a])" for s
    using score_article_non_dict [of py "respond out k" model "title a" "source a" "summary a" v s] assms
    by (simp add: scoring_request_def)
  have "snd (pipeline_loop py out sp model sg hi med max_articles dry (a # rest) processed st w) =
              Inl AttributeError
          \<and> map row_status (articles (db (fst
                (pipeline_loop py out sp model sg hi med max_articles dry (a # rest) processed st w)))) =
              map row_status (articles (db w)) @ [''new'']"
    if new: "\<not> article_exists py (db w) (url a)" and budget: "processed < max_articles"
      and k: "k = processed + 1"
  proof -
    have p: "process_article py out sp model sg hi med dry k a
               (st\<lparr>fetched := fetched st + 1, new := new st + 1\<rparr>) w =
             (w\<lparr>db := snd (projr (insert_article py (db w) (url a) (title a) (source a)
                           (published_at a) (utcnow_isoformat out k))),
                calls := calls w @ [scoring_request model a]\<rparr>,
              Inl AttributeError)"
      unfolding process_article_def insert_article_new [OF new]
      by (simp add: sc Let_def)
    show ?thesis
      using new budget
      by (simp add: Let_def k p [unfolded k] insert_article_new [OF new])
  qed
  then show ?thesis using sc [of sent] by blast
qed

theorem score_article_raises_on_non_object_witness:
  "json_loads test_python (payload_text (respond test_outside 1 (scoring_request ''m'' listed))) =
     Some (JArr [JInt 1, JInt 2])
   \<and> \<not> is_dict (JArr [JInt 1, JInt 2])
   \<and> \<not> article_exists test_python (db fresh_world) (url listed) \<and> (0::int) < 20
   \<and> score_article test_python (respond test_outside 1) (title listed) (summary listed)
        (source listed) ''m'' [] =
       (Inl AttributeError, [scoring_request ''m'' listed])
   \<and> snd (run_pipeline test_python test_outside [''https://c.example/feed''] ''sp'' ''m'' ''sg''
          7 4 20 True fresh_world) = Inl AttributeError
   \<and> map row_status (articles (db (fst (run_pipeline test_python test_outside
          [''https://c.example/feed''] ''sp'' ''m'' ''sg'' 7 4 20 True fresh_world)))) = [''new'']"
proof -
  have u: "json_loads test_python (payload_text (respond test_outside 1 (scoring_request ''m'' listed))) =
     Some (JArr [JInt 1, JInt 2])"
    by code_simp
  have d: "\<not> is_dict (JArr [JInt 1, JInt 2])"
    by simp
  have n: "\<not> article_exists test_python (db fresh_world) (url listed)"
    by code_simp
  have r: "snd (run_pipeline test_python test_outside [''https://c.example/feed''] ''sp'' ''m'' ''sg''
          7 4 20 True fresh_world) = Inl AttributeError"
    by code_simp
  have m: "map row_status (articles (db (fst (run_pipeline test_python test_outside
          [''https://c.example/feed''] ''sp'' ''m'' ''sg'' 7 4 20 True fresh_world)))) = [''new'']"
    by code_simp
  show ?thesis
    using u d n r m score_article_raises_on_non_object [OF u d, where sent = "[]"] by simp
qed

text \<open>
  Text that \<open>json.loads\<close> rejects makes \<open>generate_content\<close> return three empty
  texts.
\<close>

lemma generate_content_parse_failure:
  assumes "json_loads py (payload_text (client (Request model 1500 (GENERATION_PROMPT sg t so su u)))) = None"
  shows "generate_content py client t su so u sg model sent =
         (Inr \<lparr>tweet = [], thread = [], linkedin = []\<rparr>,
          sent @ [Request model 1500 (GENERATION_PROMPT sg t so su u)])"
  using assms by (simp add: generate_content_def messages_create_def caught_def)

text \<open>
  C8, where the code falls short of it. A generation reply that parses to a JSON value
  other than an object makes \<open>data.get\<close> raise \<open>AttributeError\<close>, which the handler
  of \<open>generate_content\<close> does not catch either: the exception leaves
  \<open>generate_content\<close>, and no \<open>GeneratedContent\<close> is returned.
\<close>

theorem generate_content_raises_on_non_object:
  assumes "json_loads py (payload_text (client (Request model 1500 (GENERATION_PROMPT sg t so su u)))) = Some v"
      and "\<not> is_dict v"
  shows "generate_content py client t su so u sg model sent =
         (Inl AttributeError, sent @ [Request model 1500 (GENERATION_PROMPT sg t so su u)])"
  using assms
  by (cases v) (simp_all add: generate_content_def messages_create_def caught_def)

theorem generate_content_raises_on_non_object_witness:
  "json_loads test_python
     (payload_text ((\<lambda>req. ''null'')
        (Request ''m'' 1500 (GENERATION_PROMPT ''sg'' ''T'' ''S'' ''sum'' ''u'')))) = Some JNull
   \<and> \<not> is_dict JNull
   \<and> generate_content test_python (\<lambda>req. ''null'') ''T'' ''sum'' ''S'' ''u'' ''sg'' ''m'' [] =
       (Inl AttributeError,
        [Request ''m'' 1500 (GENERATION_PROMPT ''sg'' ''T'' ''S'' ''sum'' ''u'')])"
proof -
  have u: "json_loads test_python
     (payload_text ((\<lambda>req. ''null'')
        (Request ''m'' 1500 (GENERATION_PROMPT ''sg'' ''T'' ''S'' ''sum'' ''u'')))) = Some JNull"
    by code_simp
  have d: "\<not> is_dict JNull"
    by simp
  show ?thesis
    using u d generate_content_raises_on_non_object [where py = test_python
        and client = "\<lambda>req. ''null''" and model = "''m''" and sg = "''sg''"
        and t = "''T''" and so = "''S''" and su = "''sum''" and u = "''u''" and sent = "[]"
        and v = JNull]
    by simp
qed

section \<open>One article through the pipeline\<close>

lemma score_article_logs:
  "snd (score_article py client t su so model sent) = sent @ [Request model 256 (SCORING_PROMPT t so su)]"
  by (simp add: score_article_def messages_create_def)

lemma generate_content_logs:
  "snd (generate_content py client t su so u sg model sent) =
   sent @ [Request model 1500 (GENERATION_PROMPT sg t so su u)]"
  by (simp add: generate_content_def messages_create_def)

lemma process_article_scored:
  assumes new: "\<not> article_exists py (db w) (url a)"
      and scored: "fst (score_article py (respond out k) (title a) (summary a) (source a) model (calls w)) = Inr r"
  shows "process_article py out sp model sg hi med dry k a st w =
     (case insert_article py (db w) (url a) (title a) (source a) (published_at a) (utcnow_isoformat out k) of
        Inr (article_id, conn) \<Rightarrow>
     (case categorize (score r) hi med (st\<lparr>scored := scored st + 1\<rparr>) of
        (category, status, st1) \<Rightarrow>
          (if score r \<ge> med \<and> is_bitcoin_relevant r then
             (case fst (generate_content py (respond out k) (title a) (summary a) (source a) (url a)
                      sg model (calls w @ [scoring_request model a])) of
                Inl e \<Rightarrow>
                  (\<lparr>db = update_score conn article_id (score r) (reason r) status,
                    files = files w,
                    calls = calls w @ [scoring_request model a, generation_request model sg a]\<rparr>,
                   Inl e)
              | Inr content \<Rightarrow>
                  (let conn = update_score conn article_id (score r) (reason r) status;
                       conn = (if tweet content \<noteq> []
                               then snd (insert_content conn article_id ''tweet'' (tweet content))
                               else conn);
                       conn = (if thread content \<noteq> []
                               then snd (insert_content conn article_id ''thread'' (thread content))
                               else conn);
                       conn = (if linkedin content \<noteq> []
                               then snd (insert_content conn article_id ''linkedin'' (linkedin content))
                               else conn)
                   in (\<lparr>db = conn,
                        files = (if dry then files w
                                 else write_to_silverbullet sp category (title a) (url a) (source a)
                                        (str_of_float py (score r)) (reason r) (now_strftime out k)
                                        (Some (tweet content)) (Some (thread content))
                                        (Some (linkedin content)) (files w)),
                        calls = calls w @ [scoring_request model a, generation_request model sg a]\<rparr>,
                       Inr (st1\<lparr>generated := generated st1 + 1\<rparr>))))
           else
             (\<lparr>db = update_score conn article_id (score r) (reason r) status,
               files = (if dry then files w
                        else write_to_silverbullet sp category (title a) (url a) (source a)
                               (str_of_float py (score r)) (reason r) (now_strftime out k)
                               None None None (files w)),
               calls = calls w @ [scoring_request model a]\<rparr>,
              Inr st1))))"
proof -
  obtain aid conn where ins: "insert_article py (db w) (url a) (title a) (source a) (published_at a)
      (utcnow_isoformat out k) = Inr (aid, conn)"
    using insert_article_new [OF new] by blast
  have sc: "score_article py (respond out k) (title a) (summary a) (source a) model (calls w) =
            (Inr r, calls w @ [scoring_request model a])"
    using scored score_article_logs [of py "respond out k" "title a" "summary a" "source a" model "calls w"]
    by (simp add: scoring_request_def prod_eq_iff)
  obtain g where g: "generate_content py (respond out k) (title a) (summary a) (source a) (url a)
                      sg model (calls w @ [scoring_request model a]) =
                     (g, calls w @ [scoring_request model a, generation_request model sg a])"
    using generate_content_logs [of py "respond out k" "title a" "summary a" "source a" "url a" sg model
        "calls w @ [scoring_request model a]"]
    by (cases "generate_content py (respond out k) (title a) (summary a) (source a) (url a)
                      sg model (calls w @ [scoring_request model a])")
       (simp add: generation_request_def)
  obtain category status st1 where c: "categorize (score r) hi med (st\<lparr>scored := scored st + 1\<rparr>) = (category, status, st1)"
    by (cases "categorize (score r) hi med (st\<lparr>scored := scored st + 1\<rparr>)") auto
  show ?thesis
    unfolding process_article_def ins
    by (cases g) (simp_all add: sc g c Let_def)
qed

lemma fold_max_ge: "s \<le> fold max xs (s::int) \<and> (\<forall>x\<in>set xs. x \<le> fold max xs s)"
proof (induction xs arbitrary: s)
  case Nil
  show ?case by simp
next
  case (Cons y ys)
  have "max y s \<le> fold max ys (max y s) \<and> (\<forall>x\<in>set ys. x \<le> fold max ys (max y s))"
    by (rule Cons.IH)
  then show ?case by auto
qed

lemma update_after_insert:
  assumes "insert_article py conn u t so p f = Inr (aid, conn1)"
  shows "articles (update_score conn1 aid s why status) =
         articles conn @
           [\<lparr>row_id = fold max (map row_id (articles conn)) (articles_seq conn) + 1,
             row_url_hash = url_hash py u, row_url = u, row_title = t, row_source = so,
             row_published_at = p, row_fetched_at = f, row_score = Some s,
             row_score_reason = Some why, row_status = status\<rparr>]"
    and "generated_content (update_score conn1 aid s why status) = generated_content conn"
proof -
  let ?m = "fold max (map row_id (articles conn)) (articles_seq conn)"
  have a: "aid = ?m + 1"
    and c: "conn1 = conn\<lparr>articles := articles conn @
                     [\<lparr>row_id = ?m + 1, row_url_hash = url_hash py u, row_url = u, row_title = t,
                       row_source = so, row_published_at = p, row_fetched_at = f, row_score = None,
                       row_score_reason = None, row_status = ''new''\<rparr>],
                   articles_seq := ?m + 1\<rparr>"
    using assms by (auto simp: insert_article_def Let_def split: if_splits)
  have "\<forall>x\<in>set (map row_id (articles conn)). x \<le> ?m"
    using fold_max_ge [of "articles_seq conn" "map row_id (articles conn)"] by blast
  then have old: "\<forall>r\<in>set (articles conn). row_id r \<noteq> ?m + 1"
    by auto
  have "map (\<lambda>r. if row_id r = ?m + 1
                  then r\<lparr>row_score := Some s, row_score_reason := Some why, row_status := status\<rparr>
                  else r) (articles conn) = articles conn"
    using old by (simp add: map_idI)
  then show "articles (update_score conn1 aid s why status) =
         articles conn @
           [\<lparr>row_id = ?m + 1,
             row_url_hash = url_hash py u, row_url = u, row_title = t, row_source = so,
             row_published_at = p, row_fetched_at = f, row_score = Some s,
             row_score_reason = Some why, row_status = status\<rparr>]"
    by (simp add: update_score_def a c)
  show "generated_content (update_score conn1 aid s why status) = generated_content conn"
    by (simp add: update_score_def c)
qed



lemma process_article_content_rows:
  assumes new: "\<not> article_exists py (db w) (url a)"
      and scored: "fst (score_article py (respond out k) (title a) (summary a) (source a) model (calls w)) = Inr r"
      and closed: "\<not> (score r \<ge> med \<and> is_bitcoin_relevant r)"
  shows "generated_content (db (fst (process_article py out sp model sg hi med dry k a st w))) =
         generated_content (db w)"
    and "\<exists>st'. snd (process_article py out sp model sg hi med dry k a st w) = Inr st'
              \<and> generated st' = generated st"
proof -
  obtain aid conn where ins: "insert_article py (db w) (url a) (title a) (source a) (published_at a)
      (utcnow_isoformat out k) = Inr (aid, conn)"
    using insert_article_new [OF new] by blast
  note up = update_after_insert(2) [OF ins]
  show "generated_content (db (fst (process_article py out sp model sg hi med dry k a st w))) =
         generated_content (db w)"
    unfolding process_article_scored [OF new scored] ins
    by (simp add: closed up split: prod.splits)
  show "\<exists>st'. snd (process_article py out sp model sg hi med dry k a st w) = Inr st'
              \<and> generated st' = generated st"
    unfolding process_article_scored [OF new scored] ins
    by (auto simp: closed categorize_def split: prod.splits)
qed

lemma process_article_calls:
  assumes new: "\<not> article_exists py (db w) (url a)"
      and scored: "fst (score_article py (respond out k) (title a) (summary a) (source a) model (calls w)) = Inr r"
  shows "calls (fst (process_article py out sp model sg hi med dry k a st w)) =
         calls w @ [scoring_request model a] @
           (if score r \<ge> med \<and> is_bitcoin_relevant r then [generation_request model sg a] else [])"
proof -
  obtain aid conn where ins: "insert_article py (db w) (url a) (title a) (source a) (published_at a)
      (utcnow_isoformat out k) = Inr (aid, conn)"
    using insert_article_new [OF new] by blast
  show ?thesis
    unfolding process_article_scored [OF new scored] ins
    by (simp add: Let_def split: prod.splits sum.splits)
qed

text \<open>
  C2. For an article that was inserted and scored, the generation request is sent if
  and only if \<open>score \<ge> score_medium\<close> and \<open>is_bitcoin_relevant\<close>: the requests of
  the step are the scoring request, followed by the generation request exactly in that
  case. In every other case no row of generated content is added, the step ends without
  an exception and the counter \<open>generated\<close> keeps its value.
\<close>

theorem generation_gate:
  assumes "\<not> article_exists py (db w) (url a)"
      and "fst (score_article py (respond out k) (title a) (summary a) (source a) model (calls w)) = Inr r"
  shows "calls (fst (process_article py out sp model sg hi med dry k a st w)) =
           calls w @ [scoring_request model a] @
             (if score r \<ge> med \<and> is_bitcoin_relevant r then [generation_request model sg a] else [])
       \<and> (\<not> (score r \<ge> med \<and> is_bitcoin_relevant r) \<longrightarrow>
            generated_content (db (fst (process_article py out sp model sg hi med dry k a st w))) =
              generated_content (db w)
            \<and> (case snd (process_article py out sp model sg hi med dry k a st w) of
                 Inr st' \<Rightarrow> generated st' = generated st
               | Inl e \<Rightarrow> False))"
proof -
  have "case snd (process_article py out sp model sg hi med dry k a st w) of
          Inr st' \<Rightarrow> generated st' = generated st
        | Inl e \<Rightarrow> False"
    if "\<not> (score r \<ge> med \<and> is_bitcoin_relevant r)"
    using process_article_content_rows(2) [OF assms that, where st = st and sp = sp and sg = sg and hi = hi and dry = dry]
    by auto
  then show ?thesis
    using process_article_calls [OF assms] process_article_content_rows(1) [OF assms]
    by blast
qed

theorem generation_gate_witness:
  "\<not> article_exists test_python (db fresh_world) (url lightning)
   \<and> fst (score_article test_python (respond test_outside 1) (title lightning) (summary lightning)
          (source lightning) ''m'' (calls fresh_world)) =
       Inr \<lparr>score = 8, reason = ''protocol news'', is_bitcoin_relevant = True\<rparr>
   \<and> calls (fst (process_article test_python test_outside ''sp'' ''m'' ''sg'' 7 4 True 1 lightning
                 \<lparr>fetched = 1, new = 1, skipped_duplicate = 0, scored = 0, generated = 0,
                  ready = 0, review = 0, archive = 0\<rparr> fresh_world)) =
       [scoring_request ''m'' lightning, generation_request ''m'' ''sg'' lightning]"
proof -
  have n: "\<not> article_exists test_python (db fresh_world) (url lightning)"
    by code_simp
  have s: "fst (score_article test_python (respond test_outside 1) (title lightning) (summary lightning)
          (source lightning) ''m'' (calls fresh_world)) =
       Inr \<lparr>score = 8, reason = ''protocol news'', is_bitcoin_relevant = True\<rparr>"
    by code_simp
  have c: "calls fresh_world = []"
    by (simp add: fresh_world_def)
  show ?thesis
    using n s generation_gate [OF n s, where sp = "''sp''" and sg = "''sg''" and hi = 7
        and med = 4 and dry = True
        and st = "\<lparr>fetched = 1, new = 1, skipped_duplicate = 0, scored = 0, generated = 0,
          ready = 0, review = 0, archive = 0\<rparr>"]
    by (simp add: c)
qed



section \<open>The loop over the feed\<close>


lemma insert_article_consistent:
  assumes "store_consistent py conn"
      and "insert_article py conn u t so p f = Inr (aid, conn1)"
  shows "store_consistent py conn1"
  using assms
  by (auto simp: store_consistent_def insert_article_def Let_def split: if_splits)

lemma list_all_map_if:
  assumes "\<And>r. P (g r) = P r"
  shows "list_all P (map (\<lambda>r. if c r then g r else r) xs) = list_all P xs"
  by (induction xs) (simp_all add: assms)

lemma update_score_consistent:
  "store_consistent py (update_score conn i s why status) = store_consistent py conn"
proof -
  let ?g = "\<lambda>r. r\<lparr>row_score := Some s, row_score_reason := Some why, row_status := status\<rparr>"
  let ?f = "\<lambda>r. if row_id r = i then ?g r else r"
  have h: "map row_url_hash (map ?f xs) = map row_url_hash xs" for xs
    by (induction xs) simp_all
  have l: "list_all (\<lambda>r. row_url_hash r = url_hash py (row_url r)) (map ?f xs)
               = list_all (\<lambda>r. row_url_hash r = url_hash py (row_url r)) xs" for xs
    by (rule list_all_map_if) simp
  have a: "articles (update_score conn i s why status) = map ?f (articles conn)"
    by (simp add: update_score_def)
  show ?thesis
    unfolding store_consistent_def a by (simp only: h l)
qed

lemma insert_content_consistent:
  "store_consistent py (snd (insert_content conn i ct c)) = store_consistent py conn"
  by (simp add: store_consistent_def insert_content_def Let_def)

lemma process_article_consistent:
  assumes "store_consistent py (db w)"
  shows "store_consistent py (db (fst (process_article py out sp model sg hi med dry k a st w)))"
proof (cases "insert_article py (db w) (url a) (title a) (source a) (published_at a) (utcnow_isoformat out k)")
  case (Inl e)
  then show ?thesis
    using assms by (simp add: process_article_def)
next
  case (Inr p)
  obtain aid conn where p: "p = (aid, conn)"
    by (cases p)
  have c: "store_consistent py conn"
    using insert_article_consistent [OF assms] Inr p by blast
  show ?thesis
    unfolding process_article_def Inr p
    by (simp add: c Let_def update_score_consistent insert_content_consistent
        split: sum.splits prod.splits)
qed

lemma pipeline_loop_consistent:
  assumes "store_consistent py (db w)"
  shows "store_consistent py (db (fst (pipeline_loop py out sp model sg hi med max_articles dry arts processed st w)))"
  using assms
proof (induction arts arbitrary: processed st w)
  case Nil
  then show ?case by simp
next
  case (Cons a arts)
  let ?st = "st\<lparr>fetched := fetched st + 1, new := new st + 1\<rparr>"
  obtain w1 r1 where p: "process_article py out sp model sg hi med dry (processed + 1) a ?st w = (w1, r1)"
    by (cases "process_article py out sp model sg hi med dry (processed + 1) a ?st w")
  have c1: "store_consistent py (db w1)"
    using process_article_consistent [OF Cons.prems, of out sp model sg hi med dry "processed + 1" a ?st] p
    by simp
  show ?case
    using Cons.IH [OF Cons.prems] Cons.IH [OF c1] Cons.prems c1
    by (cases r1) (simp_all add: Let_def p)
qed

lemma consistent_distinct_urls:
  assumes "store_consistent py conn"
  shows "distinct (map row_url (articles conn))"
proof -
  have eq: "map row_url_hash (articles conn) = map (url_hash py) (map row_url (articles conn))"
    using assms by (simp add: store_consistent_def list_all_iff)
  have "distinct (map row_url_hash (articles conn))"
    using assms by (simp add: store_consistent_def)
  then have "distinct (map (url_hash py) (map row_url (articles conn)))"
    by (simp only: eq)
  then show ?thesis
    using distinct_map [of "url_hash py" "map row_url (articles conn)"] by blast
qed

lemma consistent_url_exists:
  assumes "store_consistent py conn" and "u \<in> set (map row_url (articles conn))"
  shows "article_exists py conn u"
  using assms by (force simp: store_consistent_def article_exists_def list_all_iff)

text \<open>
  C3. In a store whose rows carry the hash of their URL, each hash once: an article
  whose URL is in the store is found by \<open>article_exists\<close>; the loop then only counts
  it in \<open>fetched\<close> and \<open>skipped_duplicate\<close> and goes on with the same database, files,
  requests and budget. The loop keeps the store in that shape, so that afterwards it
  holds no URL twice.
\<close>

theorem duplicate_is_skipped:
  assumes "store_consistent py (db w)"
  shows "(url a \<in> set (map row_url (articles (db w))) \<longrightarrow>
            article_exists py (db w) (url a)
          \<and> pipeline_loop py out sp model sg hi med max_articles dry (a # rest) processed st w =
            pipeline_loop py out sp model sg hi med max_articles dry rest processed
              (st\<lparr>fetched := fetched st + 1, skipped_duplicate := skipped_duplicate st + 1\<rparr>) w)
       \<and> store_consistent py (db (fst
            (pipeline_loop py out sp model sg hi med max_articles dry arts processed st w)))
       \<and> distinct (map row_url (articles (db (fst
            (pipeline_loop py out sp model sg hi med max_articles dry arts processed st w)))))"
proof -
  have "article_exists py (db w) (url a)
          \<and> pipeline_loop py out sp model sg hi med max_articles dry (a # rest) processed st w =
            pipeline_loop py out sp model sg hi med max_articles dry rest processed
              (st\<lparr>fetched := fetched st + 1, skipped_duplicate := skipped_duplicate st + 1\<rparr>) w"
    if "url a \<in> set (map row_url (articles (db w)))"
  proof -
    have "article_exists py (db w) (url a)"
      using consistent_url_exists [OF assms that] .
    then show ?thesis by (simp add: Let_def)
  qed
  moreover have "store_consistent py (db (fst
            (pipeline_loop py out sp model sg hi med max_articles dry arts processed st w)))"
    using pipeline_loop_consistent [OF assms] .
  moreover have "distinct (map row_url (articles (db (fst
            (pipeline_loop py out sp model sg hi med max_articles dry arts processed st w)))))"
    using consistent_distinct_urls [OF pipeline_loop_consistent [OF assms]] .
  ultimately show ?thesis by blast
qed

theorem duplicate_is_skipped_witness:
  "store_consistent test_python (db seen_world)
   \<and> url lightning \<in> set (map row_url (articles (db seen_world)))
   \<and> pipeline_loop test_python test_outside ''sp'' ''m'' ''sg'' 7 4 20 False [lightning] 0
        \<lparr>fetched = 0, new = 0, skipped_duplicate = 0, scored = 0, generated = 0,
         ready = 0, review = 0, archive = 0\<rparr> seen_world =
       (seen_world,
        Inr \<lparr>fetched = 1, new = 0, skipped_duplicate = 1, scored = 0, generated = 0,
             ready = 0, review = 0, archive = 0\<rparr>)"
proof -
  have c: "store_consistent test_python (db seen_world)"
    by code_simp
  have u: "url lightning \<in> set (map row_url (articles (db seen_world)))"
    by code_simp
  show ?thesis
    using c u duplicate_is_skipped [OF c, where a = lightning and out = test_outside
        and sp = "''sp''" and model = "''m''" and sg = "''sg''" and hi = 7 and med = 4
        and max_articles = 20 and dry = False and rest = "[]" and processed = 0
        and st = "\<lparr>fetched = 0, new = 0, skipped_duplicate = 0, scored = 0, generated = 0,
                   ready = 0, review = 0, archive = 0\<rparr>"]
    by simp
qed











lemma process_article_files_frame:
  "process_article py out sp model sg hi med True k a st (w\<lparr>files := f\<rparr>) =
   (case process_article py out sp model sg hi med True k a st w of (w', r) \<Rightarrow> (w'\<lparr>files := f\<rparr>, r))"
  unfolding process_article_def
  by (simp add: Let_def split: sum.splits prod.splits)

lemma process_article_dry:
  "process_article py out sp model sg hi med True k a st w =
   (case process_article py out sp model sg hi med False k a st w of
      (w', r) \<Rightarrow> (w'\<lparr>files := files w\<rparr>, r))"
  unfolding process_article_def
  by (simp add: Let_def split: sum.splits prod.splits)

lemma pipeline_loop_files_frame:
  "pipeline_loop py out sp model sg hi med max_articles True arts processed st (w\<lparr>files := f\<rparr>) =
   (case pipeline_loop py out sp model sg hi med max_articles True arts processed st w of
      (w', r) \<Rightarrow> (w'\<lparr>files := f\<rparr>, r))"
proof (induction arts arbitrary: processed st w)
  case Nil
  show ?case by simp
next
  case (Cons a arts)
  let ?st = "st\<lparr>fetched := fetched st + 1, new := new st + 1\<rparr>"
  obtain w1 r1 where p: "process_article py out sp model sg hi med True (processed + 1) a ?st w = (w1, r1)"
    by (cases "process_article py out sp model sg hi med True (processed + 1) a ?st w")
  have pf: "process_article py out sp model sg hi med True (processed + 1) a ?st (w\<lparr>files := f\<rparr>) =
            (w1\<lparr>files := f\<rparr>, r1)"
    by (simp add: process_article_files_frame p)
  show ?case
    by (cases r1) (simp_all add: Let_def p pf Cons.IH)
qed

lemma pipeline_loop_dry:
  "pipeline_loop py out sp model sg hi med max_articles True arts processed st w =
   (case pipeline_loop py out sp model sg hi med max_articles False arts processed st w of
      (w', r) \<Rightarrow> (w'\<lparr>files := files w\<rparr>, r))"
proof (induction arts arbitrary: processed st w)
  case Nil
  show ?case by simp
next
  case (Cons a arts)
  let ?st = "st\<lparr>fetched := fetched st + 1, new := new st + 1\<rparr>"
  obtain w1 r1 where p: "process_article py out sp model sg hi med False (processed + 1) a ?st w = (w1, r1)"
    by (cases "process_article py out sp model sg hi med False (processed + 1) a ?st w")
  have pd: "process_article py out sp model sg hi med True (processed + 1) a ?st w =
            (w1\<lparr>files := files w\<rparr>, r1)"
    by (simp add: process_article_dry [of py out sp model sg hi med "processed + 1" a ?st w] p)
  have next_dry: "pipeline_loop py out sp model sg hi med max_articles True arts k s (w1\<lparr>files := files w\<rparr>) =
        (case pipeline_loop py out sp model sg hi med max_articles False arts k s w1 of
           (w', r) \<Rightarrow> (w'\<lparr>files := files w\<rparr>, r))" for k s
    by (simp add: pipeline_loop_files_frame Cons.IH [of k s w1] split: prod.splits)
  show ?case
    by (cases r1) (simp_all add: Let_def p pd next_dry Cons.IH [of _ _ w])
qed

text \<open>
  C5. A dry run leaves every file as it was; its database, the requests it sends and
  its result (counters or exception) are those of the run that writes.
\<close>

theorem dry_run_touches_no_file:
  "files (fst (run_pipeline py out feeds sp model sg hi med max_articles True w)) = files w
   \<and> db (fst (run_pipeline py out feeds sp model sg hi med max_articles True w)) =
     db (fst (run_pipeline py out feeds sp model sg hi med max_articles False w))
   \<and> calls (fst (run_pipeline py out feeds sp model sg hi med max_articles True w)) =
     calls (fst (run_pipeline py out feeds sp model sg hi med max_articles False w))
   \<and> snd (run_pipeline py out feeds sp model sg hi med max_articles True w) =
     snd (run_pipeline py out feeds sp model sg hi med max_articles False w)"
  unfolding run_pipeline_def
  by (simp add: pipeline_loop_dry [of py out sp model sg hi med max_articles _ _ _ w] split: prod.splits)

theorem dry_run_touches_no_file_witness:
  "files (fst (run_pipeline test_python test_outside [''https://bitcoinmagazine.com/.rss/full/'']
                 ''sp'' ''m'' ''sg'' 7 4 20 True fresh_world)) (''sp'', ''Content/ReadyToPost.md'') = None
   \<and> files (fst (run_pipeline test_python test_outside [''https://bitcoinmagazine.com/.rss/full/'']
                 ''sp'' ''m'' ''sg'' 7 4 20 False fresh_world)) (''sp'', ''Content/ReadyToPost.md'') \<noteq> None
   \<and> map row_status (articles (db (fst (run_pipeline test_python test_outside
          [''https://bitcoinmagazine.com/.rss/full/''] ''sp'' ''m'' ''sg'' 7 4 20 True fresh_world)))) =
       [''ready'', ''review'']
   \<and> db (fst (run_pipeline test_python test_outside [''https://bitcoinmagazine.com/.rss/full/'']
                 ''sp'' ''m'' ''sg'' 7 4 20 True fresh_world)) =
       db (fst (run_pipeline test_python test_outside [''https://bitcoinmagazine.com/.rss/full/'']
                 ''sp'' ''m'' ''sg'' 7 4 20 False fresh_world))"
proof -
  have w: "files (fst (run_pipeline test_python test_outside [''https://bitcoinmagazine.com/.rss/full/'']
                 ''sp'' ''m'' ''sg'' 7 4 20 False fresh_world)) (''sp'', ''Content/ReadyToPost.md'') \<noteq> None"
    by code_simp
  have r: "map row_status (articles (db (fst (run_pipeline test_python test_outside
          [''https://bitcoinmagazine.com/.rss/full/''] ''sp'' ''m'' ''sg'' 7 4 20 True fresh_world)))) =
       [''ready'', ''review'']"
    by code_simp
  have f: "files fresh_world = Map.empty"
    by (simp add: fresh_world_def)
  show ?thesis
    using w r dry_run_touches_no_file [of test_python test_outside
        "[''https://bitcoinmagazine.com/.rss/full/'']" "''sp''" "''m''" "''sg''" 7 4 20 fresh_world]
    by (simp add: f)
qed

section \<open>The entry point\<close>

text \<open>
  C9, as the code does it. Given an API key, \<open>main\<close> hands the thresholds of the
  command line to \<open>run_pipeline\<close> whatever their order, and returns what the run
  returns. With \<open>score_high < score_medium\<close> no score is categorized \<open>review\<close>, and
  a score from \<open>score_high\<close> up to \<open>score_medium\<close> is \<open>ready\<close>.
\<close>

theorem thresholds_not_validated:
  assumes "api_key \<noteq> None" and "api_key \<noteq> Some []"
  shows "main py out api_key a w =
           (case run_pipeline py out RSS_FEEDS (arg_space a) CLAUDE_MODEL CONTENT_STYLE
                   (arg_score_high a) (arg_score_medium a) (arg_max_articles a) (arg_dry_run a) w of
              (w', Inl e) \<Rightarrow> (w', Raised e)
            | (w', Inr st) \<Rightarrow> (w', Finished st))
       \<and> (arg_score_high a < arg_score_medium a \<longrightarrow>
            fst (categorize s (arg_score_high a) (arg_score_medium a) st) \<noteq> ''review''
          \<and> (arg_score_high a \<le> s \<and> s < arg_score_medium a \<longrightarrow>
               fst (categorize s (arg_score_high a) (arg_score_medium a) st) = ''ready''))"
  using assms by (auto simp: main_def categorize_def)

theorem thresholds_not_validated_witness:
  "Some ''key'' \<noteq> (None :: string option) \<and> Some ''key'' \<noteq> Some []
   \<and> (2::real) < 6
   \<and> snd (main test_python test_outside (Some ''key'')
          \<lparr>arg_dry_run = True, arg_max_articles = 20, arg_score_high = 2, arg_score_medium = 6,
           arg_space = ''sp''\<rparr> fresh_world) =
       Finished \<lparr>fetched = 2, new = 2, skipped_duplicate = 0, scored = 2, generated = 1,
                 ready = 2, review = 0, archive = 0\<rparr>"
proof -
  have k: "Some ''key'' \<noteq> (None :: string option)" "Some ''key'' \<noteq> Some []"
    by simp_all
  have r: "snd (run_pipeline test_python test_outside RSS_FEEDS ''sp'' CLAUDE_MODEL CONTENT_STYLE
                  2 6 20 True fresh_world) =
           Inr \<lparr>fetched = 2, new = 2, skipped_duplicate = 0, scored = 2, generated = 1,
                ready = 2, review = 0, archive = 0\<rparr>"
    by code_simp
  have "main test_python test_outside (Some ''key'')
          \<lparr>arg_dry_run = True, arg_max_articles = 20, arg_score_high = 2, arg_score_medium = 6,
           arg_space = ''sp''\<rparr> fresh_world =
        (case run_pipeline test_python test_outside RSS_FEEDS ''sp'' CLAUDE_MODEL CONTENT_STYLE
                2 6 20 True fresh_world of
           (w', Inl e) \<Rightarrow> (w', Raised e)
         | (w', Inr st) \<Rightarrow> (w', Finished st))"
    using thresholds_not_validated [OF k, where py = test_python and out = test_outside
        and w = fresh_world
        and a = "\<lparr>arg_dry_run = True, arg_max_articles = 20, arg_score_high = 2,
                  arg_score_medium = 6, arg_space = ''sp''\<rparr>"]
    by simp
  then show ?thesis
    using r by (simp split: prod.splits sum.splits)
qed

text \<open>
  A start with \<open>score_high = 3\<close> and \<open>score_medium = 5\<close> is not refused: the run
  scores both articles of the feed.
\<close>

theorem thresholds_not_validated_counterexample:
  "(3::real) < 5
   \<and> snd (main test_python test_outside (Some ''key'')
          \<lparr>arg_dry_run = True, arg_max_articles = 20, arg_score_high = 3, arg_score_medium = 5,
           arg_space = ''sp''\<rparr> fresh_world) =
       Finished \<lparr>fetched = 2, new = 2, skipped_duplicate = 0, scored = 2, generated = 1,
                 ready = 2, review = 0, archive = 0\<rparr>"
  by code_simp

end
